theory Spec2Isabelle
  imports Main "HOL-Library.Sublist"
begin

section \<open>Python strings\<close>

text \<open>
  The tools of \<^verbatim>\<open>mcp_server_remote.py\<close> take and return strings. A string is a
  list of characters, and a character is a code point below 256 (the type \<open>char\<close> holds
  no other). On these code points \<^verbatim>\<open>str.lower()\<close> works character by character:
  the letters \<^verbatim>\<open>A\<close> to \<^verbatim>\<open>Z\<close> and the letters \<^verbatim>\<open>U+00C0\<close> to
  \<^verbatim>\<open>U+00DE\<close>, the multiplication sign \<^verbatim>\<open>U+00D7\<close> apart, go to the code point
  32 above, and every other character stays.
\<close>

definition ascii_uppercase :: string where
  "ascii_uppercase = ''ABCDEFGHIJKLMNOPQRSTUVWXYZ''"

definition ascii_lowercase :: string where
  "ascii_lowercase = ''abcdefghijklmnopqrstuvwxyz''"

definition latin1_uppercase :: string where
  "latin1_uppercase =
     [CHR 0xC0, CHR 0xC1, CHR 0xC2, CHR 0xC3, CHR 0xC4, CHR 0xC5, CHR 0xC6, CHR 0xC7,
      CHR 0xC8, CHR 0xC9, CHR 0xCA, CHR 0xCB, CHR 0xCC, CHR 0xCD, CHR 0xCE, CHR 0xCF,
      CHR 0xD0, CHR 0xD1, CHR 0xD2, CHR 0xD3, CHR 0xD4, CHR 0xD5, CHR 0xD6, CHR 0xD8,
      CHR 0xD9, CHR 0xDA, CHR 0xDB, CHR 0xDC, CHR 0xDD, CHR 0xDE]"

definition latin1_lowercase :: string where
  "latin1_lowercase =
     [CHR 0xE0, CHR 0xE1, CHR 0xE2, CHR 0xE3, CHR 0xE4, CHR 0xE5, CHR 0xE6, CHR 0xE7,
      CHR 0xE8, CHR 0xE9, CHR 0xEA, CHR 0xEB, CHR 0xEC, CHR 0xED, CHR 0xEE, CHR 0xEF,
      CHR 0xF0, CHR 0xF1, CHR 0xF2, CHR 0xF3, CHR 0xF4, CHR 0xF5, CHR 0xF6, CHR 0xF8,
      CHR 0xF9, CHR 0xFA, CHR 0xFB, CHR 0xFC, CHR 0xFD, CHR 0xFE]"

definition uppercase :: string where
  "uppercase = ascii_uppercase @ latin1_uppercase"

definition lowercase :: string where
  "lowercase = ascii_lowercase @ latin1_lowercase"

definition char_lower :: "char \<Rightarrow> char" where
  "char_lower c =
     (case map_of (zip uppercase lowercase) c of
        Some l \<Rightarrow> l
      | None \<Rightarrow> c)"

definition py_lower :: "string \<Rightarrow> string" where
  "py_lower s = map char_lower s"

text \<open>\<^verbatim>\<open>sub in s\<close> on strings: \<open>sub\<close> occurs in \<open>s\<close> as a contiguous run.\<close>

fun py_in :: "string \<Rightarrow> string \<Rightarrow> bool" where
  "py_in sub [] = (sub = [])"
| "py_in sub (c # cs) = (prefix sub (c # cs) \<or> py_in sub cs)"

text \<open>\<^verbatim>\<open>sep.join(xs)\<close>.\<close>

fun py_join :: "string \<Rightarrow> string list \<Rightarrow> string" where
  "py_join sep [] = []"
| "py_join sep [x] = x"
| "py_join sep (x # y # ys) = x @ sep @ py_join sep (y # ys)"

text \<open>The apostrophe of the f-strings, and a string between two of them.\<close>

definition apos :: string where
  "apos = [CHR 0x27]"

definition quoted :: "string \<Rightarrow> string" where
  "quoted s = apos @ s @ apos"

section \<open>search\_wiki\<close>

text \<open>
  \<^verbatim>\<open>_MOCK_WIKI_DB\<close> is imported from \<^verbatim>\<open>data\<close>; it is a parameter here: the
  keyword/article pairs in the dict's insertion order (what \<^verbatim>\<open>.items()\<close> yields).
\<close>

type_synonym wiki_db = "(string \<times> string) list"

text \<open>Lines 48 to 51: the first keyword that is in the query, or that the query is in.\<close>

fun keyword_scan :: "wiki_db \<Rightarrow> string \<Rightarrow> string option" where
  "keyword_scan [] query_lower = None"
| "keyword_scan ((keyword, content) # rest) query_lower =
     (if py_in keyword query_lower \<or> py_in query_lower keyword then Some content
      else keyword_scan rest query_lower)"

text \<open>Lines 53 to 56: the first article whose lowercased text has the query in it.\<close>

fun content_scan :: "wiki_db \<Rightarrow> string \<Rightarrow> string option" where
  "content_scan [] query_lower = None"
| "content_scan ((keyword, content) # rest) query_lower =
     (if py_in query_lower (py_lower content) then Some content
      else content_scan rest query_lower)"

definition wiki_not_found :: "string \<Rightarrow> string" where
  "wiki_not_found query =
     ''I couldn'' @ apos @ ''t find specific information for '' @ quoted query @
     '' in our GreatBuy WIKI. Could you rephrase or ask about something else?''"

definition search_wiki :: "wiki_db \<Rightarrow> string \<Rightarrow> string" where
  "search_wiki wiki query =
     (let query_lower = py_lower query in
      case keyword_scan wiki query_lower of
        Some content \<Rightarrow> content
      | None \<Rightarrow>
          (case content_scan wiki query_lower of
             Some content \<Rightarrow> content
           | None \<Rightarrow> wiki_not_found query))"

section \<open>Order records and the order store\<close>

text \<open>
  Modelled from the spec: the order record. \<^verbatim>\<open>persistent_data\<close> is not among the
  sources, so the record's fields are those of the spec's data model, which are the keys
  the tools read and write. An order is a Python dict: each key is missing from the dict,
  present with the value \<^verbatim>\<open>None\<close>, or present with a value. A value that may be
  \<^verbatim>\<open>None\<close> is an \<open>option\<close>.
\<close>

datatype 'a py_field = Missing | PyNone | Value 'a

record order =
  status :: "string py_field"
  items :: "string list py_field"
  seller_id :: "string py_field"
  estimated_delivery_time :: "string py_field"
  special_instructions :: "string py_field"

datatype py_error = KeyError | AttributeError | TypeError

text \<open>The dict with no key; it is the only dict that is falsy.\<close>

definition empty_dict :: order where
  "empty_dict =
     \<lparr>status = Missing, items = Missing, seller_id = Missing,
      estimated_delivery_time = Missing, special_instructions = Missing\<rparr>"

text \<open>\<^verbatim>\<open>d[key]\<close> and \<^verbatim>\<open>d.get(key, default)\<close>, on the slot of the key.\<close>

fun subscript :: "'a py_field \<Rightarrow> py_error + 'a option" where
  "subscript Missing = Inl KeyError"
| "subscript PyNone = Inr None"
| "subscript (Value v) = Inr (Some v)"

fun dict_get :: "'a py_field \<Rightarrow> 'a option \<Rightarrow> 'a option" where
  "dict_get Missing dflt = dflt"
| "dict_get PyNone dflt = None"
| "dict_get (Value v) dflt = Some v"

text \<open>How an f-string renders a string or \<^verbatim>\<open>None\<close>, and the truth value of one.\<close>

fun py_str :: "string option \<Rightarrow> string" where
  "py_str None = ''None''"
| "py_str (Some s) = s"

fun truthy :: "string option \<Rightarrow> bool" where
  "truthy None = False"
| "truthy (Some s) = (s \<noteq> [])"

text \<open>
  The store is an injected collaborator with two operations (spec, section 6):
  \<^verbatim>\<open>get(order_id)\<close> gives the record or \<^verbatim>\<open>None\<close>, and
  \<^verbatim>\<open>update(order_id, partial_fields)\<close> reports success and leaves a new store state.
  The tools are written over any such store, of state \<open>'st\<close>.
\<close>

record 'st orders_db =
  db_get :: "'st \<Rightarrow> string \<Rightarrow> order option"
  db_update :: "'st \<Rightarrow> string \<Rightarrow> order \<Rightarrow> bool \<times> 'st"

text \<open>
  \<^verbatim>\<open>_MOCK_SELLERS_DB\<close> is imported from \<^verbatim>\<open>data\<close>; it is a parameter here.
  Modelled from the spec: a seller has the single attribute \<^verbatim>\<open>name\<close>, so the table
  gives the name stored for a seller id.
\<close>

type_synonym sellers_db = "(string \<times> string) list"

section \<open>read\_order\_status\<close>

definition read_not_found :: "string \<Rightarrow> string" where
  "read_not_found order_id =
     ''Sorry, I could not find a GreatBuy order with ID '' @ quoted order_id @ ''.''"

definition status_line :: "string \<Rightarrow> string \<Rightarrow> string \<Rightarrow> string \<Rightarrow> string \<Rightarrow> string" where
  "status_line order_id status_text items_str seller_name delivery =
     ''Order '' @ quoted order_id @ '': Status is '' @ quoted status_text @ ''. '' @
     ''Items: '' @ items_str @ ''. '' @
     ''Seller: '' @ seller_name @ ''. '' @
     ''Estimated Delivery: '' @ delivery @ ''. ''"

definition read_order_status ::
  "'st orders_db \<Rightarrow> sellers_db \<Rightarrow> 'st \<Rightarrow> string \<Rightarrow> (py_error + string) \<times> 'st" where
  "read_order_status db sellers st order_id =
     (case db_get db st order_id of
        None \<Rightarrow> (Inr (read_not_found order_id), st)
      | Some order \<Rightarrow>
          if order = empty_dict then (Inr (read_not_found order_id), st)
          else
            let seller_name =
                  (if truthy (dict_get (seller_id order) None) then
                     (case map_of sellers (py_str (dict_get (seller_id order) None)) of
                        Some name \<Rightarrow> name
                      | None \<Rightarrow> ''Unknown Seller'')
                   else ''Unknown Seller'')
            in
            (case dict_get (items order) (Some [''No items listed'']) of
               None \<Rightarrow> (Inl TypeError, st)
             | Some item_list \<Rightarrow>
                 let items_str = py_join '', '' item_list in
                 (case subscript (status order) of
                    Inl e \<Rightarrow> (Inl e, st)
                  | Inr status_value \<Rightarrow>
                      let status_message =
                            status_line order_id (py_str status_value) items_str seller_name
                              (py_str (dict_get (estimated_delivery_time order) (Some ''N/A'')))
                      in
                      if truthy (dict_get (special_instructions order) None) then
                        (Inr (status_message @ ''Special Instructions: '' @
                              py_str (dict_get (special_instructions order) None)), st)
                      else (Inr status_message, st))))"

section \<open>update\_order\_status\<close>

definition update_not_found :: "string \<Rightarrow> string" where
  "update_not_found order_id =
     ''Sorry, I could not find a GreatBuy order with ID '' @ quoted order_id @ '' to update.''"

definition cancel_success :: "string \<Rightarrow> string" where
  "cancel_success order_id = ''Order '' @ quoted order_id @ '' has been successfully cancelled.''"

definition update_failed :: "string \<Rightarrow> string" where
  "update_failed order_id = ''Failed to update order '' @ quoted order_id @ '' in database.''"

definition already_cancelled :: "string \<Rightarrow> string" where
  "already_cancelled order_id = ''Order '' @ quoted order_id @ '' is already cancelled.''"

definition cannot_cancel :: "string \<Rightarrow> string \<Rightarrow> string" where
  "cannot_cancel order_id status_text =
     ''Order '' @ quoted order_id @ '' cannot be cancelled because its current status is '' @
     quoted status_text @
     ''. Please refer to our cancellation policy or contact support for more help.''"

definition not_supported :: "string \<Rightarrow> string \<Rightarrow> string \<Rightarrow> string" where
  "not_supported new_status order_id status_text =
     ''This tool is primarily for cancelling orders. To change status to '' @
     quoted new_status @ '' is not supported via this action for order '' @ quoted order_id @
     ''. Current status remains '' @ quoted status_text @ ''.''"

definition cancellable_statuses :: "string list" where
  "cancellable_statuses = [''processing'', ''awaiting shipment'', ''preparing for shipment'']"

text \<open>The partial fields of line 123: the two keys the cancellation writes.\<close>

definition cancellation_fields :: order where
  "cancellation_fields =
     \<lparr>status = Value ''Cancelled'', items = Missing, seller_id = Missing,
      estimated_delivery_time = PyNone, special_instructions = Missing\<rparr>"

definition update_order_status ::
  "'st orders_db \<Rightarrow> 'st \<Rightarrow> string \<Rightarrow> string \<Rightarrow> (py_error + string) \<times> 'st" where
  "update_order_status db st order_id new_status =
     (case db_get db st order_id of
        None \<Rightarrow> (Inr (update_not_found order_id), st)
      | Some order \<Rightarrow>
          if order = empty_dict then (Inr (update_not_found order_id), st)
          else
            let normalized_new_status = py_lower new_status in
            if normalized_new_status = ''cancelled'' then
              (case subscript (status order) of
                 Inl e \<Rightarrow> (Inl e, st)
               | Inr None \<Rightarrow> (Inl AttributeError, st)
               | Inr (Some status_text) \<Rightarrow>
                   let current_status_lower = py_lower status_text in
                   if current_status_lower \<in> set cancellable_statuses then
                     (case db_update db st order_id cancellation_fields of
                        (update_result, st') \<Rightarrow>
                          if update_result then (Inr (cancel_success order_id), st')
                          else (Inr (update_failed order_id), st'))
                   else if current_status_lower = ''cancelled'' then
                     (Inr (already_cancelled order_id), st)
                   else (Inr (cannot_cancel order_id status_text), st))
            else
              (case subscript (status order) of
                 Inl e \<Rightarrow> (Inl e, st)
               | Inr status_value \<Rightarrow>
                   (Inr (not_supported new_status order_id (py_str status_value)), st)))"

section \<open>The order store of the spec\<close>

text \<open>
  Modelled from the spec: the order store. \<^verbatim>\<open>persistent_data\<close> is not among the
  sources. The spec gives the contract \<^verbatim>\<open>get(order_id) -> OrderRecord|absent\<close> and
  \<^verbatim>\<open>update(order_id, partial_fields) -> success:boolean\<close>: an update that succeeds
  writes the given fields over the stored record of that id and leaves every other key
  of the record as it was; one that fails writes nothing. Whether the backing write goes
  through is the store's own state.
\<close>

record orders_store =
  rows :: "string \<rightharpoonup> order"
  write_ok :: bool

fun merge_field :: "'a py_field \<Rightarrow> 'a py_field \<Rightarrow> 'a py_field" where
  "merge_field old Missing = old"
| "merge_field old new = new"

definition dict_update :: "order \<Rightarrow> order \<Rightarrow> order" where
  "dict_update old partial_fields =
     \<lparr>status = merge_field (status old) (status partial_fields),
      items = merge_field (items old) (items partial_fields),
      seller_id = merge_field (seller_id old) (seller_id partial_fields),
      estimated_delivery_time =
        merge_field (estimated_delivery_time old) (estimated_delivery_time partial_fields),
      special_instructions =
        merge_field (special_instructions old) (special_instructions partial_fields)\<rparr>"

definition store_get :: "orders_store \<Rightarrow> string \<Rightarrow> order option" where
  "store_get s order_id = rows s order_id"

definition store_update :: "orders_store \<Rightarrow> string \<Rightarrow> order \<Rightarrow> bool \<times> orders_store" where
  "store_update s order_id partial_fields =
     (case rows s order_id of
        None \<Rightarrow> (False, s)
      | Some old \<Rightarrow>
          if write_ok s
          then (True, s\<lparr>rows := (rows s)(order_id \<mapsto> dict_update old partial_fields)\<rparr>)
          else (False, s))"

definition persistent_orders_db :: "orders_store orders_db" where
  "persistent_orders_db = \<lparr>db_get = store_get, db_update = store_update\<rparr>"

section \<open>Example data\<close>

text \<open>A store with three orders and a seller table, for the concrete runs below.\<close>

definition processing_order :: order where
  "processing_order =
     \<lparr>status = Value ''Processing'', items = Value [''Laptop'', ''Mouse''],
      seller_id = Value ''SELLER01'', estimated_delivery_time = Value ''2 days'',
      special_instructions = Value ''Leave at the door''\<rparr>"

definition cancelled_order :: order where
  "cancelled_order =
     \<lparr>status = Value ''Cancelled'', items = Value [''Phone''],
      seller_id = Value ''SELLER02'', estimated_delivery_time = PyNone,
      special_instructions = Missing\<rparr>"

definition delivered_order :: order where
  "delivered_order =
     \<lparr>status = Value ''Delivered'', items = Value [],
      seller_id = Missing, estimated_delivery_time = Missing,
      special_instructions = PyNone\<rparr>"

definition example_store :: orders_store where
  "example_store =
     \<lparr>rows = [''ORD1'' \<mapsto> processing_order, ''ORD2'' \<mapsto> cancelled_order,
              ''ORD3'' \<mapsto> delivered_order],
      write_ok = True\<rparr>"

definition example_sellers :: sellers_db where
  "example_sellers = [(''SELLER01'', ''Gadget World'')]"


section \<open>Facts about strings\<close>

lemmas lower_simps = py_lower_def char_lower_def uppercase_def lowercase_def
  ascii_uppercase_def ascii_lowercase_def latin1_uppercase_def latin1_lowercase_def

lemma py_in_sublist: "py_in sub s \<longleftrightarrow> sublist sub s"
  by (induction s) (simp_all add: sublist_Cons_right)

lemma py_in_refl: "py_in s s"
  by (simp add: py_in_sublist)

lemma map_of_zip_absent: "c \<notin> set xs \<Longrightarrow> map_of (zip xs ys) c = None"
  by (auto simp: map_of_eq_None_iff dest: set_zip_leftD)

lemma map_of_zip_range: "map_of (zip xs ys) c = Some l \<Longrightarrow> l \<in> set ys"
  by (auto dest: map_of_SomeD set_zip_rightD)

lemma char_lower_fixed: "c \<notin> set uppercase \<Longrightarrow> char_lower c = c"
  by (simp add: char_lower_def map_of_zip_absent)

lemma char_lower_range: "char_lower c = c \<or> char_lower c \<in> set lowercase"
  by (auto simp: char_lower_def dest: map_of_zip_range split: option.splits)

lemma lower_not_upper: "l \<in> set lowercase \<Longrightarrow> l \<notin> set uppercase"
proof -
  have "\<forall>l \<in> set lowercase. l \<notin> set uppercase"
    unfolding lowercase_def uppercase_def ascii_lowercase_def ascii_uppercase_def
      latin1_lowercase_def latin1_uppercase_def
    by simp
  then show "l \<in> set lowercase \<Longrightarrow> l \<notin> set uppercase" by blast
qed

text \<open>Lowering twice is lowering once: a lowered letter is not an upper-case letter.\<close>

lemma char_lower_idem: "char_lower (char_lower c) = char_lower c"
  using char_lower_range [of c] char_lower_fixed [of "char_lower c"]
    lower_not_upper [of "char_lower c"]
  by auto

text \<open>The capital E with acute goes to the small one; the multiplication sign and the sharp s stay.\<close>

lemma py_lower_latin1_examples:
  "py_lower [CHR 0xC9, CHR ''t'', CHR 0xC9] = [CHR 0xE9, CHR ''t'', CHR 0xE9]"
  "py_lower [CHR 0xD7, CHR 0xDF, CHR 0xF7, CHR 0xFF] = [CHR 0xD7, CHR 0xDF, CHR 0xF7, CHR 0xFF]"
  by (simp_all add: lower_simps)

lemma py_lower_idem: "py_lower (py_lower s) = py_lower s"
  by (simp add: py_lower_def char_lower_idem)

lemma py_in_lower_mono: "py_in a b \<Longrightarrow> py_in (py_lower a) (py_lower b)"
  unfolding py_in_sublist py_lower_def by (rule map_mono_sublist)

text \<open>What occurs in a lowered string is itself in lower case.\<close>

lemma py_in_lower_fixed:
  assumes "py_in k (py_lower q)"
  shows "py_lower k = k"
proof -
  from assms have "set k \<subseteq> set (py_lower q)"
    unfolding py_in_sublist by (rule set_mono_sublist)
  then have "\<forall>c \<in> set k. char_lower c = c"
    by (auto simp: py_lower_def char_lower_idem)
  then show ?thesis
    unfolding py_lower_def by (simp add: map_idI)
qed

section \<open>The wiki search\<close>

lemma keyword_scan_none:
  "\<forall>(k, c) \<in> set wiki. \<not> py_in k q \<and> \<not> py_in q k \<Longrightarrow> keyword_scan wiki q = None"
  by (induction wiki q rule: keyword_scan.induct) auto

lemma content_scan_none:
  "\<forall>(k, c) \<in> set wiki. \<not> py_in q (py_lower c) \<Longrightarrow> content_scan wiki q = None"
  by (induction wiki q rule: content_scan.induct) auto

lemma keyword_scan_first:
  "\<forall>(k, c) \<in> set before. \<not> py_in k q \<and> \<not> py_in q k \<Longrightarrow>
   py_in keyword q \<or> py_in q keyword \<Longrightarrow>
   keyword_scan (before @ (keyword, content) # rest) q = Some content"
  by (induction before q rule: keyword_scan.induct) auto

lemma py_in_wiki_not_found: "py_in query (wiki_not_found query)"
proof -
  have "wiki_not_found query =
      (''I couldn'' @ apos @ ''t find specific information for '' @ apos) @ query @
      (apos @ '' in our GreatBuy WIKI. Could you rephrase or ask about something else?'')"
    by (simp only: wiki_not_found_def quoted_def append_assoc)
  then show ?thesis
    by (simp only: py_in_sublist sublist_appendI)
qed

text \<open>
  Outside ASCII the search lowers the query as Python does: the query of one capital E with
  acute finds the keyword that is the small letter, does not find the keyword that is the
  capital letter, and is found in an article that has the small letter.
\<close>

lemma search_wiki_latin1_examples:
  "search_wiki [([CHR 0xE9], ''Article'')] [CHR 0xC9] = ''Article''"
  "search_wiki [([CHR 0xC9], ''Article'')] [CHR 0xC9] = wiki_not_found [CHR 0xC9]"
  "search_wiki [(''faq'', [CHR 0xE9])] [CHR 0xC9] = [CHR 0xE9]"
  by (simp_all add: search_wiki_def lower_simps)

text \<open>
  Claim C3, as stated: a query equal, up to case, to a stored keyword gets that keyword's
  article. It fails twice. The first loop returns at the first keyword that matches in
  either direction, so an earlier keyword that occurs in the query wins: with the keywords
  \<^verbatim>\<open>shipping\<close> and \<^verbatim>\<open>shipping fees\<close> in this order, the query
  \<^verbatim>\<open>Shipping Fees\<close> gets the article of \<^verbatim>\<open>shipping\<close>. And only the query is
  lowered, never the keyword: the keyword \<^verbatim>\<open>Returns\<close> is not found by the query
  \<^verbatim>\<open>returns\<close>.
\<close>

theorem search_wiki_exact_keyword_counterexample:
  "py_lower ''Shipping Fees'' = py_lower ''shipping fees'' \<and>
   map_of [(''shipping'', ''Orders ship in two days.''), (''shipping fees'', ''Shipping is free.'')]
     ''shipping fees'' = Some ''Shipping is free.'' \<and>
   search_wiki [(''shipping'', ''Orders ship in two days.''), (''shipping fees'', ''Shipping is free.'')]
     ''Shipping Fees'' \<noteq> ''Shipping is free.'' \<and>
   py_lower ''returns'' = py_lower ''Returns'' \<and>
   search_wiki [(''Returns'', ''Send it back within 30 days.'')] ''returns''
     \<noteq> ''Send it back within 30 days.''"
  by (simp add: search_wiki_def wiki_not_found_def quoted_def apos_def lower_simps)

text \<open>
  Claim C3, amended: when the lowered query is a stored keyword, and no keyword before it
  in the table's order occurs in it or has it as a part, \<open>search_wiki\<close> returns that
  keyword's article.
\<close>

theorem search_wiki_exact_keyword:
  assumes "wiki = before @ (keyword, content) # rest"
    and "py_lower query = keyword"
    and "\<forall>(k, c) \<in> set before. \<not> py_in k keyword \<and> \<not> py_in keyword k"
  shows "search_wiki wiki query = content"
  using assms keyword_scan_first [of before keyword keyword content rest]
  by (simp add: search_wiki_def py_in_refl)

theorem search_wiki_exact_keyword_witness:
  "search_wiki [(''shipping'', ''Orders ship in two days.''), (''return policy'', ''Send it back.'')]
     ''Return Policy'' = ''Send it back.''"
  using search_wiki_exact_keyword
    [of "[(''shipping'', ''Orders ship in two days.''), (''return policy'', ''Send it back.'')]"
      "[(''shipping'', ''Orders ship in two days.'')]" "''return policy''" "''Send it back.''" "[]"
      "''Return Policy''"]
  by (simp add: lower_simps)

text \<open>
  Claim C8: a query that, compared without case, matches no keyword in either direction
  and occurs in no article gets the not-found message, which has the query as given in it.
  The code compares the lowered query with the keyword as stored; a match of that kind is
  also a match without case, so the hypothesis excludes it.
\<close>

theorem search_wiki_not_found:
  assumes "\<forall>(k, c) \<in> set wiki.
             \<not> py_in (py_lower k) (py_lower query) \<and> \<not> py_in (py_lower query) (py_lower k) \<and>
             \<not> py_in (py_lower query) (py_lower c)"
  shows "search_wiki wiki query = wiki_not_found query \<and> py_in query (wiki_not_found query)"
proof -
  have "\<forall>(k, c) \<in> set wiki. \<not> py_in k (py_lower query) \<and> \<not> py_in (py_lower query) k"
  proof (clarify, rule conjI)
    fix k c assume kc: "(k, c) \<in> set wiki"
    with assms have n1: "\<not> py_in (py_lower k) (py_lower query)"
      and n2: "\<not> py_in (py_lower query) (py_lower k)" by auto
    show "\<not> py_in k (py_lower query)"
    proof
      assume h: "py_in k (py_lower query)"
      then have "py_lower k = k" by (rule py_in_lower_fixed)
      with h n1 show False by simp
    qed
    show "\<not> py_in (py_lower query) k"
    proof
      assume "py_in (py_lower query) k"
      then have "py_in (py_lower (py_lower query)) (py_lower k)" by (rule py_in_lower_mono)
      with n2 show False by (simp add: py_lower_idem)
    qed
  qed
  then have "keyword_scan wiki (py_lower query) = None" by (rule keyword_scan_none)
  moreover from assms have "content_scan wiki (py_lower query) = None"
    by (intro content_scan_none) auto
  ultimately show ?thesis
    by (simp add: search_wiki_def py_in_wiki_not_found)
qed

theorem search_wiki_not_found_witness:
  "search_wiki [(''shipping'', ''Orders ship in two days.'')] ''Refund?'' =
     wiki_not_found ''Refund?'' \<and>
   py_in ''Refund?'' (wiki_not_found ''Refund?'')"
  using search_wiki_not_found [of "[(''shipping'', ''Orders ship in two days.'')]" "''Refund?''"]
  by (simp add: lower_simps)

text \<open>
  Claim C9: on the empty query and a table that is not empty, \<open>search_wiki\<close> returns the
  article of the table's first keyword: the empty string occurs in every keyword.
\<close>

theorem search_wiki_empty_query: "search_wiki ((keyword, content) # rest) [] = content"
  by (cases keyword) (simp_all add: search_wiki_def py_lower_def)

theorem search_wiki_empty_query_witness:
  "search_wiki [(''shipping'', ''Orders ship in two days.''), (''returns'', ''Send it back.'')] []
     = ''Orders ship in two days.''"
  using search_wiki_empty_query
    [of "''shipping''" "''Orders ship in two days.''" "[(''returns'', ''Send it back.'')]"]
  by simp

section \<open>The order tools\<close>

lemmas example_simps = example_store_def processing_order_def cancelled_order_def
  delivered_order_def example_sellers_def persistent_orders_db_def store_get_def
  store_update_def

lemma not_empty_dict: "status order = Value s \<Longrightarrow> order \<noteq> empty_dict"
  by (auto simp: empty_dict_def)

lemma py_in_already_cancelled: "py_in ''already cancelled'' (already_cancelled order_id)"
proof -
  have "already_cancelled order_id =
      (''Order '' @ quoted order_id @ '' is '') @ ''already cancelled'' @ ''.''"
    by (simp add: already_cancelled_def)
  then show ?thesis
    by (simp only: py_in_sublist sublist_appendI)
qed

lemma py_in_cannot_cancel: "py_in status_text (cannot_cancel order_id status_text)"
proof -
  have "cannot_cancel order_id status_text =
      (''Order '' @ quoted order_id @
       '' cannot be cancelled because its current status is '' @ apos) @ status_text @
      (apos @ ''. Please refer to our cancellation policy or contact support for more help.'')"
    by (simp only: cannot_cancel_def quoted_def append_assoc)
  then show ?thesis
    by (simp only: py_in_sublist sublist_appendI)
qed

text \<open>The failure message starts with another letter than every other message.\<close>

lemma update_failed_distinct:
  "update_failed a \<noteq> update_not_found b"
  "update_failed a \<noteq> cancel_success b"
  "update_failed a \<noteq> already_cancelled b"
  "update_failed a \<noteq> cannot_cancel b c"
  "update_failed a \<noteq> not_supported d b c"
  by (simp_all add: update_failed_def update_not_found_def cancel_success_def
      already_cancelled_def cannot_cancel_def not_supported_def)

lemma not_supported_distinct:
  "cancel_success a \<noteq> not_supported d b c"
  "already_cancelled a \<noteq> not_supported d b c"
  "cannot_cancel a e \<noteq> not_supported d b c"
  by (simp_all add: cancel_success_def already_cancelled_def cannot_cancel_def not_supported_def)

text \<open>
  Claim C1: on an order whose status is \<^verbatim>\<open>cancelled\<close> in any casing, a request to
  cancel returns the message that the order is already cancelled, which contains
  \<^verbatim>\<open>already cancelled\<close>, and the store is the one the call started from: the
  store's update is not called, whatever store is plugged in.
\<close>

theorem update_already_cancelled:
  assumes "db_get db st order_id = Some order"
    and "status order = Value status_text"
    and "py_lower status_text = ''cancelled''"
    and "py_lower new_status = ''cancelled''"
  shows "update_order_status db st order_id new_status = (Inr (already_cancelled order_id), st) \<and>
         py_in ''already cancelled'' (already_cancelled order_id)"
  using assms not_empty_dict [of order status_text]
  by (simp add: update_order_status_def cancellable_statuses_def py_in_already_cancelled)

theorem update_already_cancelled_witness:
  "update_order_status persistent_orders_db example_store ''ORD2'' ''cancelled'' =
     (Inr (already_cancelled ''ORD2''), example_store) \<and>
   py_in ''already cancelled'' (already_cancelled ''ORD2'')"
  using update_already_cancelled [of persistent_orders_db example_store "''ORD2''" cancelled_order "''Cancelled''" "''cancelled''"]
  by (simp add: example_simps lower_simps)

text \<open>
  Claim C2, on the store of the spec: when the order's status is one of the cancellable
  ones in any casing, the target is \<^verbatim>\<open>cancelled\<close> and the store accepts the update,
  the call confirms the cancellation, the stored record is the old one with the status
  \<^verbatim>\<open>Cancelled\<close> and the estimated delivery time \<^verbatim>\<open>None\<close> (so the items, the
  seller id and the special instructions are as before), and every other order of the
  store is as before.
\<close>

theorem update_cancels_order:
  assumes "store_get s order_id = Some order"
    and "status order = Value status_text"
    and "py_lower status_text \<in> set cancellable_statuses"
    and "py_lower new_status = ''cancelled''"
    and "fst (store_update s order_id cancellation_fields)"
  shows "fst (update_order_status persistent_orders_db s order_id new_status) =
           Inr (cancel_success order_id) \<and>
         store_get (snd (update_order_status persistent_orders_db s order_id new_status)) order_id =
           Some (order\<lparr>status := Value ''Cancelled'', estimated_delivery_time := PyNone\<rparr>) \<and>
         (\<forall>other. other \<noteq> order_id \<longrightarrow>
            store_get (snd (update_order_status persistent_orders_db s order_id new_status)) other =
              store_get s other)"
  using assms not_empty_dict [of order status_text]
  by (auto simp: update_order_status_def persistent_orders_db_def store_get_def store_update_def
      cancellation_fields_def dict_update_def split: if_splits)

theorem update_cancels_order_witness:
  "fst (update_order_status persistent_orders_db example_store ''ORD1'' ''cancelled'') =
     Inr (cancel_success ''ORD1'') \<and>
   store_get (snd (update_order_status persistent_orders_db example_store ''ORD1'' ''cancelled''))
     ''ORD1'' =
     Some \<lparr>status = Value ''Cancelled'', items = Value [''Laptop'', ''Mouse''],
           seller_id = Value ''SELLER01'', estimated_delivery_time = PyNone,
           special_instructions = Value ''Leave at the door''\<rparr> \<and>
   store_get (snd (update_order_status persistent_orders_db example_store ''ORD1'' ''cancelled''))
     ''ORD3'' = Some delivered_order"
  using update_cancels_order [of example_store "''ORD1''" processing_order "''Processing''" "''cancelled''"]
  by (simp add: example_simps lower_simps cancellable_statuses_def cancellation_fields_def)

text \<open>
  Claim C4: the items are the placeholder when the items field is empty or absent, and the
  estimated delivery time defaults to \<^verbatim>\<open>N/A\<close>. The code misses both on a key that
  is present: \<^verbatim>\<open>order.get(key, default)\<close> takes the default only when the key is
  missing. An order whose items are the empty list gets the sentence with nothing after
  \<^verbatim>\<open>Items:\<close>, and the placeholder is not in it. An order whose estimated delivery
  time is \<^verbatim>\<open>None\<close>, which is what the cancellation of line 125 writes, gets
  \<^verbatim>\<open>Estimated Delivery: None\<close>: so does the stored cancelled order, and so does a
  processing order read after \<open>update_order_status\<close> has cancelled it.
\<close>

theorem read_order_status_defaults_missed:
  "store_get example_store ''ORD3'' = Some delivered_order \<and>
   items delivered_order = Value [] \<and>
   fst (read_order_status persistent_orders_db example_sellers example_store ''ORD3'') =
     Inr (status_line ''ORD3'' ''Delivered'' [] ''Unknown Seller'' ''N/A'') \<and>
   \<not> py_in ''No items listed'' (status_line ''ORD3'' ''Delivered'' [] ''Unknown Seller'' ''N/A'') \<and>
   store_get example_store ''ORD2'' = Some cancelled_order \<and>
   estimated_delivery_time cancelled_order = PyNone \<and>
   fst (read_order_status persistent_orders_db example_sellers example_store ''ORD2'') =
     Inr (status_line ''ORD2'' ''Cancelled'' ''Phone'' ''Unknown Seller'' ''None'') \<and>
   fst (read_order_status persistent_orders_db example_sellers
          (snd (update_order_status persistent_orders_db example_store ''ORD1'' ''cancelled''))
          ''ORD1'') =
     Inr (status_line ''ORD1'' ''Cancelled'' ''Laptop, Mouse'' ''Gadget World'' ''None'' @
          ''Special Instructions: Leave at the door'')"
proof -
  have empty_items:
    "fst (read_order_status persistent_orders_db example_sellers example_store ''ORD3'') =
       Inr (status_line ''ORD3'' ''Delivered'' [] ''Unknown Seller'' ''N/A'')"
    by (simp add: read_order_status_def example_simps empty_dict_def)
  have no_placeholder:
    "\<not> py_in ''No items listed''
         (status_line ''ORD3'' ''Delivered'' [] ''Unknown Seller'' ''N/A'')"
    by (simp add: status_line_def quoted_def apos_def)
  have stored_none:
    "fst (read_order_status persistent_orders_db example_sellers example_store ''ORD2'') =
       Inr (status_line ''ORD2'' ''Cancelled'' ''Phone'' ''Unknown Seller'' ''None'')"
    by (simp add: read_order_status_def example_simps empty_dict_def)
  have after_cancel:
    "fst (read_order_status persistent_orders_db example_sellers
            (snd (update_order_status persistent_orders_db example_store ''ORD1'' ''cancelled''))
            ''ORD1'') =
       Inr (status_line ''ORD1'' ''Cancelled'' ''Laptop, Mouse'' ''Gadget World'' ''None'' @
            ''Special Instructions: Leave at the door'')"
    by (simp add: read_order_status_def update_order_status_def example_simps empty_dict_def
        lower_simps cancellable_statuses_def cancellation_fields_def dict_update_def)
  have stored:
    "store_get example_store ''ORD3'' = Some delivered_order"
    "items delivered_order = Value []"
    "store_get example_store ''ORD2'' = Some cancelled_order"
    "estimated_delivery_time cancelled_order = PyNone"
    by (simp_all add: example_simps)
  from empty_items no_placeholder stored_none after_cancel stored show ?thesis
    by (simp only: simp_thms)
qed

text \<open>
  Claim C5, as stated: every target other than \<^verbatim>\<open>cancelled\<close> is rejected and the
  record is unchanged. It fails on a target that differs from \<^verbatim>\<open>cancelled\<close> in
  casing only: the target is lowered before the comparison, so \<^verbatim>\<open>CANCELLED\<close>
  cancels a processing order.
\<close>

theorem update_other_casing_counterexample:
  "''CANCELLED'' \<noteq> ''cancelled'' \<and>
   store_get example_store ''ORD1'' = Some processing_order \<and>
   fst (update_order_status persistent_orders_db example_store ''ORD1'' ''CANCELLED'') =
     Inr (cancel_success ''ORD1'') \<and>
   store_get (snd (update_order_status persistent_orders_db example_store ''ORD1'' ''CANCELLED''))
     ''ORD1'' \<noteq> Some processing_order"
  by (simp add: update_order_status_def example_simps lower_simps cancellable_statuses_def
      empty_dict_def cancellation_fields_def dict_update_def)

text \<open>
  Claim C5, amended: every target that is not \<^verbatim>\<open>cancelled\<close> in any casing is
  rejected, whatever the order's status, with the message that starts by saying what the
  tool is for, and the store is unchanged.
\<close>

theorem update_other_status_rejected:
  assumes "db_get db st order_id = Some order"
    and "status order = Value status_text"
    and "py_lower new_status \<noteq> ''cancelled''"
  shows "update_order_status db st order_id new_status =
           (Inr (not_supported new_status order_id status_text), st) \<and>
         prefix ''This tool is primarily for cancelling orders.''
           (not_supported new_status order_id status_text)"
  using assms not_empty_dict [of order status_text]
  by (simp add: update_order_status_def not_supported_def)

theorem update_other_status_rejected_witness:
  "update_order_status persistent_orders_db example_store ''ORD1'' ''shipped'' =
     (Inr (not_supported ''shipped'' ''ORD1'' ''Processing''), example_store) \<and>
   prefix ''This tool is primarily for cancelling orders.''
     (not_supported ''shipped'' ''ORD1'' ''Processing'')"
  using update_other_status_rejected [of persistent_orders_db example_store "''ORD1''" processing_order "''Processing''" "''shipped''"]
  by (simp add: example_simps lower_simps)

text \<open>
  Claim C6: on an order whose status, lowered, is neither cancellable nor
  \<^verbatim>\<open>cancelled\<close>, a request to cancel is rejected with a message that contains the
  status as stored, and the store is unchanged.
\<close>

theorem update_not_cancellable:
  assumes "db_get db st order_id = Some order"
    and "status order = Value status_text"
    and "py_lower status_text \<notin> set cancellable_statuses"
    and "py_lower status_text \<noteq> ''cancelled''"
    and "py_lower new_status = ''cancelled''"
  shows "update_order_status db st order_id new_status =
           (Inr (cannot_cancel order_id status_text), st) \<and>
         py_in status_text (cannot_cancel order_id status_text)"
  using assms not_empty_dict [of order status_text]
  by (simp add: update_order_status_def py_in_cannot_cancel)

theorem update_not_cancellable_witness:
  "update_order_status persistent_orders_db example_store ''ORD3'' ''cancelled'' =
     (Inr (cannot_cancel ''ORD3'' ''Delivered''), example_store) \<and>
   py_in ''Delivered'' (cannot_cancel ''ORD3'' ''Delivered'')"
  using update_not_cancellable [of persistent_orders_db example_store "''ORD3''" delivered_order "''Delivered''" "''cancelled''"]
  by (simp add: example_simps lower_simps cancellable_statuses_def)

text \<open>
  Claim C7: when the cancellation is accepted and the store's update reports failure,
  the call returns the failure message, and that message differs from the not-found
  message, from the confirmation, and from each of the rejection messages, whatever
  their order ids, statuses and targets.
\<close>

theorem update_store_failure:
  assumes "db_get db st order_id = Some order"
    and "status order = Value status_text"
    and "py_lower status_text \<in> set cancellable_statuses"
    and "py_lower new_status = ''cancelled''"
    and "\<not> fst (db_update db st order_id cancellation_fields)"
  shows "fst (update_order_status db st order_id new_status) = Inr (update_failed order_id) \<and>
         (\<forall>a. update_failed order_id \<noteq> update_not_found a) \<and>
         (\<forall>a. update_failed order_id \<noteq> cancel_success a) \<and>
         (\<forall>a. update_failed order_id \<noteq> already_cancelled a) \<and>
         (\<forall>a b. update_failed order_id \<noteq> cannot_cancel a b) \<and>
         (\<forall>a b c. update_failed order_id \<noteq> not_supported a b c)"
proof (cases "db_update db st order_id cancellation_fields")
  case (Pair update_result st')
  with assms not_empty_dict [of order status_text] show ?thesis
    by (simp add: update_order_status_def update_failed_distinct)
qed

theorem update_store_failure_witness:
  "fst (update_order_status persistent_orders_db (example_store\<lparr>write_ok := False\<rparr>)
         ''ORD1'' ''cancelled'') = Inr (update_failed ''ORD1'') \<and>
   update_failed ''ORD1'' \<noteq> update_not_found ''ORD1'' \<and>
   update_failed ''ORD1'' \<noteq> cancel_success ''ORD1'' \<and>
   update_failed ''ORD1'' \<noteq> already_cancelled ''ORD1'' \<and>
   update_failed ''ORD1'' \<noteq> cannot_cancel ''ORD1'' ''Processing'' \<and>
   update_failed ''ORD1'' \<noteq> not_supported ''shipped'' ''ORD1'' ''Processing''"
  using update_store_failure [of persistent_orders_db "example_store\<lparr>write_ok := False\<rparr>" "''ORD1''"
      processing_order "''Processing''" "''cancelled''"]
  by (simp add: example_simps lower_simps cancellable_statuses_def)

text \<open>
  Claim C10: a target that is \<^verbatim>\<open>cancelled\<close> in any casing takes the cancellation
  path. On an order with a status string the call does what lines 119 to 144 say: on a
  cancellable status it calls the store's update with the cancellation fields and
  confirms or reports the failure, on a cancelled order it says so, on any other status
  it refuses with the status. The answer is never the message of the path for other
  targets, and the target itself is in none of these answers.
\<close>

theorem update_target_any_casing:
  assumes "db_get db st order_id = Some order"
    and "status order = Value status_text"
    and "py_lower new_status = ''cancelled''"
  shows "update_order_status db st order_id new_status =
           (if py_lower status_text \<in> set cancellable_statuses then
              (if fst (db_update db st order_id cancellation_fields)
               then (Inr (cancel_success order_id),
                     snd (db_update db st order_id cancellation_fields))
               else (Inr (update_failed order_id),
                     snd (db_update db st order_id cancellation_fields)))
            else if py_lower status_text = ''cancelled''
              then (Inr (already_cancelled order_id), st)
              else (Inr (cannot_cancel order_id status_text), st)) \<and>
         (\<forall>a b c. fst (update_order_status db st order_id new_status) \<noteq> Inr (not_supported a b c))"
proof (cases "db_update db st order_id cancellation_fields")
  case (Pair update_result st')
  with assms not_empty_dict [of order status_text] show ?thesis
    by (simp add: update_order_status_def not_supported_distinct update_failed_distinct)
qed

theorem update_target_any_casing_witness:
  "fst (update_order_status persistent_orders_db example_store ''ORD1'' ''CANCELLED'') =
     Inr (cancel_success ''ORD1'') \<and>
   store_get (snd (update_order_status persistent_orders_db example_store ''ORD1'' ''CANCELLED''))
     ''ORD1'' =
     Some (processing_order\<lparr>status := Value ''Cancelled'', estimated_delivery_time := PyNone\<rparr>) \<and>
   update_order_status persistent_orders_db example_store ''ORD2'' ''Cancelled'' =
     (Inr (already_cancelled ''ORD2''), example_store) \<and>
   update_order_status persistent_orders_db example_store ''ORD3'' ''cAnCeLlEd'' =
     (Inr (cannot_cancel ''ORD3'' ''Delivered''), example_store) \<and>
   fst (update_order_status persistent_orders_db example_store ''ORD1'' ''CANCELLED'') \<noteq>
     Inr (not_supported ''CANCELLED'' ''ORD1'' ''Processing'')"
proof -
  have g1: "db_get persistent_orders_db example_store ''ORD1'' = Some processing_order"
    and g2: "db_get persistent_orders_db example_store ''ORD2'' = Some cancelled_order"
    and g3: "db_get persistent_orders_db example_store ''ORD3'' = Some delivered_order"
    by (simp_all add: example_simps)
  have s1: "status processing_order = Value ''Processing''"
    and s2: "status cancelled_order = Value ''Cancelled''"
    and s3: "status delivered_order = Value ''Delivered''"
    by (simp_all add: example_simps)
  have l1: "py_lower ''CANCELLED'' = ''cancelled''"
    and l2: "py_lower ''Cancelled'' = ''cancelled''"
    and l3: "py_lower ''cAnCeLlEd'' = ''cancelled''"
    by (simp_all add: lower_simps)
  have c1: "py_lower ''Processing'' \<in> set cancellable_statuses"
    and c2: "py_lower ''Cancelled'' \<notin> set cancellable_statuses"
    and c3: "py_lower ''Delivered'' \<notin> set cancellable_statuses"
    and c4: "py_lower ''Delivered'' \<noteq> ''cancelled''"
    by (simp_all add: lower_simps cancellable_statuses_def)
  have u: "db_update persistent_orders_db example_store ''ORD1'' cancellation_fields =
      (True, example_store\<lparr>rows := (rows example_store)
         (''ORD1'' \<mapsto> processing_order
            \<lparr>status := Value ''Cancelled'', estimated_delivery_time := PyNone\<rparr>)\<rparr>)"
    by (simp add: example_simps cancellation_fields_def dict_update_def)
  from update_target_any_casing [OF g1 s1 l1] c1 u
  have r1: "update_order_status persistent_orders_db example_store ''ORD1'' ''CANCELLED'' =
      (Inr (cancel_success ''ORD1''), example_store\<lparr>rows := (rows example_store)
         (''ORD1'' \<mapsto> processing_order
            \<lparr>status := Value ''Cancelled'', estimated_delivery_time := PyNone\<rparr>)\<rparr>)"
    by simp
  from update_target_any_casing [OF g1 s1 l1]
  have n1: "fst (update_order_status persistent_orders_db example_store ''ORD1'' ''CANCELLED'') \<noteq>
      Inr (not_supported ''CANCELLED'' ''ORD1'' ''Processing'')"
    by blast
  from update_target_any_casing [OF g2 s2 l2] c2 l2
  have r2: "update_order_status persistent_orders_db example_store ''ORD2'' ''Cancelled'' =
      (Inr (already_cancelled ''ORD2''), example_store)"
    by simp
  from update_target_any_casing [OF g3 s3 l3] c3 c4
  have r3: "update_order_status persistent_orders_db example_store ''ORD3'' ''cAnCeLlEd'' =
      (Inr (cannot_cancel ''ORD3'' ''Delivered''), example_store)"
    by simp
  from r1 r2 r3 n1 show ?thesis
    by (simp add: store_get_def)
qed

end
